theory Spec2Isabelle
  imports Main "HOL-Library.Word"
begin

section \<open>JavaScript strings\<close>

text \<open>
  A JavaScript string is a sequence of UTF-16 code units; \<open>substring\<close>, \<open>trim\<close>,
  \<open>split\<close>, \<open>includes\<close> and \<open>endsWith\<close> all work on code units. A string is
  therefore a list of 16-bit words. \<open>js\<close> turns an ASCII literal into such a string.
\<close>

type_synonym jschar = "16 word"
type_synonym jsstring = "jschar list"

definition js :: "string \<Rightarrow> jsstring" where
  "js s = map of_char s"

text \<open>
  \<open>String.prototype.trim\<close> removes WhiteSpace and LineTerminator code points from both
  ends: TAB, LF, VT, FF, CR, SP, NBSP, U+1680, U+2000..U+200A, U+2028, U+2029, U+202F,
  U+205F, U+3000 and U+FEFF.
\<close>

definition isWhiteSpace :: "jschar \<Rightarrow> bool" where
  "isWhiteSpace c \<longleftrightarrow>
     c = 0x9 \<or> c = 0xA \<or> c = 0xB \<or> c = 0xC \<or> c = 0xD \<or> c = 0x20 \<or> c = 0xA0
     \<or> c = 0x1680 \<or> (0x2000 \<le> c \<and> c \<le> 0x200A) \<or> c = 0x2028 \<or> c = 0x2029
     \<or> c = 0x202F \<or> c = 0x205F \<or> c = 0x3000 \<or> c = 0xFEFF"

definition trim :: "jsstring \<Rightarrow> jsstring" where
  "trim s = rev (dropWhile isWhiteSpace (rev (dropWhile isWhiteSpace s)))"

text \<open>\<open>s.substring(a, b)\<close> for \<open>a \<le> b\<close> and \<open>s.substring(a)\<close>; both clamp to the length.\<close>

definition substring :: "jsstring \<Rightarrow> nat \<Rightarrow> nat \<Rightarrow> jsstring" where
  "substring s a b = take (b - a) (drop a s)"

definition substringFrom :: "jsstring \<Rightarrow> nat \<Rightarrow> jsstring" where
  "substringFrom s a = drop a s"

fun startsWith :: "jsstring \<Rightarrow> jsstring \<Rightarrow> bool" where
  "startsWith s [] = True"
| "startsWith [] (p # ps) = False"
| "startsWith (c # cs) (p # ps) = (c = p \<and> startsWith cs ps)"

definition endsWith :: "jsstring \<Rightarrow> jsstring \<Rightarrow> bool" where
  "endsWith s p = startsWith (rev s) (rev p)"

fun includes_js :: "jsstring \<Rightarrow> jsstring \<Rightarrow> bool" where
  "includes_js [] p = (p = [])"
| "includes_js (c # cs) p = (startsWith (c # cs) p \<or> includes_js cs p)"

text \<open>
  \<open>s.split(sep)\<close> for a separator of one code unit: the result is never empty, and the
  empty string splits into one empty piece.
\<close>

fun splitOn :: "jschar \<Rightarrow> jsstring \<Rightarrow> jsstring list" where
  "splitOn sep [] = [[]]"
| "splitOn sep (c # cs) =
     (if c = sep then [] # splitOn sep cs
      else (case splitOn sep cs of
              [] \<Rightarrow> [[c]]
            | piece # pieces \<Rightarrow> (c # piece) # pieces))"

fun join :: "jsstring \<Rightarrow> jsstring list \<Rightarrow> jsstring" where
  "join sep [] = []"
| "join sep [x] = x"
| "join sep (x # y # ys) = x @ sep @ join sep (y # ys)"

text \<open>The decimal digits of an array length, as template literals print it.\<close>

fun numberToString :: "nat \<Rightarrow> jsstring" where
  "numberToString n =
     (if n < 10 then [of_nat (48 + n)]
      else numberToString (n div 10) @ [of_nat (48 + n mod 10)])"

declare numberToString.simps [simp del]

definition LF :: jschar where
  "LF = 0xA"

definition slash :: jschar where
  "slash = 0x2F"

section \<open>The environment of the commit script\<close>

text \<open>
  \<open>scripts/git-workflow.js\<close> reads the world through two calls: \<open>execSync\<close>, which
  returns the standard output of a command line or throws, and \<open>fs.readFileSync\<close>,
  which returns the content of a file or throws. A throw is \<open>None\<close>. The commands that
  \<open>generateCommitMessage\<close> runs do not change the working tree, so one fixed
  environment serves a whole run.
\<close>

record env =
  execSync :: "jsstring \<Rightarrow> jsstring option"
  readFileSync :: "jsstring \<Rightarrow> jsstring option"

text \<open>
  \<open>getGitStatus\<close>: the trimmed output of \<open>git status --porcelain\<close>, the empty string when
  the command fails.
\<close>

definition getGitStatus :: "env \<Rightarrow> jsstring" where
  "getGitStatus w =
     (case execSync w (js ''git status --porcelain'') of
        None \<Rightarrow> []
      | Some status \<Rightarrow> trim status)"

section \<open>Per-file descriptions\<close>

text \<open>
  \<open>fileName.split("/").pop().replace(/\.(tsx|jsx)$/, "")\<close>: the pattern is anchored at
  the end of the input, so it matches the last four code units or nothing.
\<close>

definition replaceExt :: "jsstring \<Rightarrow> jsstring" where
  "replaceExt s =
     (if endsWith s (js ''.tsx'') \<or> endsWith s (js ''.jsx'')
      then take (length s - 4) s else s)"

definition analyzeNewFile :: "env \<Rightarrow> jsstring \<Rightarrow> jsstring" where
  "analyzeNewFile w fileName =
     (case readFileSync w fileName of
        None \<Rightarrow> js ''new file''
      | Some content \<Rightarrow>
          if endsWith fileName (js ''.tsx'') \<or> endsWith fileName (js ''.jsx'') then
            (if includes_js content (js ''export default function'')
                \<or> includes_js content (js ''export default class'')
             then js ''new React component: '' @ replaceExt (last (splitOn slash fileName))
             else js ''new React component'')
          else if endsWith fileName (js ''.ts'') \<or> endsWith fileName (js ''.js'') then
            (if includes_js fileName (js ''config'') then js ''new configuration file''
             else if includes_js fileName (js ''script'') then js ''new utility script''
             else js ''new TypeScript/JavaScript file'')
          else if endsWith fileName (js ''.css'') then js ''new stylesheet''
          else if endsWith fileName (js ''.json'') then js ''new configuration''
          else if endsWith fileName (js ''.md'') then js ''new documentation''
          else js ''new file'')"

definition analyzeModifiedFile :: "env \<Rightarrow> jsstring \<Rightarrow> jsstring" where
  "analyzeModifiedFile w fileName =
     (case execSync w (js ''git diff --no-ext-diff '' @ fileName) of
        None \<Rightarrow> js ''update file''
      | Some diff \<Rightarrow>
          if endsWith fileName (js ''.tsx'') \<or> endsWith fileName (js ''.jsx'') then
            (if includes_js diff (js ''className='') then js ''update component styling''
             else if includes_js diff (js ''import '') then js ''update component imports''
             else if includes_js diff (js ''export default'') then js ''update component structure''
             else if includes_js diff (js ''//'') \<or> includes_js diff (js ''/*'')
               then js ''update component comments''
             else js ''update React component'')
          else if endsWith fileName (js ''.json'') then
            (if includes_js diff (js ''\"dependencies\"'') then js ''update dependencies''
             else if includes_js diff (js ''\"scripts\"'') then js ''update npm scripts''
             else js ''update configuration'')
          else if endsWith fileName (js ''.css'') then js ''update styles''
          else if endsWith fileName (js ''.md'') then js ''update documentation''
          else if endsWith fileName (js ''.ts'') \<or> endsWith fileName (js ''.js'')
            then js ''update code logic''
          else js ''update file content'')"

section \<open>The status parser\<close>

record changes =
  added :: "jsstring list"
  modified :: "jsstring list"
  deleted :: "jsstring list"
  renamed :: "jsstring list"

text \<open>
  \<open>descriptions\<close> is a plain object used as a dictionary: the map holds its own
  properties. The key \<open>__proto__\<close> is not an ordinary key of a plain object: assigning a
  string to it does nothing, and reading it yields \<open>Object.prototype\<close>, which
  \<open>Array.prototype.join\<close> prints as \<open>[object Object]\<close>. A missing property is
  \<open>undefined\<close>, which \<open>join\<close> prints as the empty string. The other members of
  \<open>Object.prototype\<close> are left out: the parser gives every path it lists a
  description of its own, so they are never read.
\<close>

type_synonym descriptions = "jsstring \<rightharpoonup> jsstring"

definition setDescription :: "descriptions \<Rightarrow> jsstring \<Rightarrow> jsstring \<Rightarrow> descriptions" where
  "setDescription d key v = (if key = js ''__proto__'' then d else d(key \<mapsto> v))"

definition getDescription :: "descriptions \<Rightarrow> jsstring \<Rightarrow> jsstring" where
  "getDescription d key =
     (if key = js ''__proto__'' then js ''[object Object]''
      else (case d key of None \<Rightarrow> [] | Some v \<Rightarrow> v))"

text \<open>
  The state of the parser is \<open>described\<close> when every path in a category other than
  \<open>__proto__\<close> has a description of its own. The parser keeps its state so (lemma
  \<open>described_analyzeFileChanges\<close> below), hence the message never reads a property
  that \<open>descriptions\<close> would inherit from \<open>Object.prototype\<close>.
\<close>

definition described :: "changes \<times> descriptions \<Rightarrow> bool" where
  "described st \<longleftrightarrow>
     list_all (\<lambda>f. f = js ''__proto__'' \<or> snd st f \<noteq> None)
       (added (fst st) @ modified (fst st) @ deleted (fst st) @ renamed (fst st))"

definition noChanges :: changes where
  "noChanges = \<lparr>added = [], modified = [], deleted = [], renamed = []\<rparr>"

text \<open>
  The body of the \<open>forEach\<close> callback: one status line, the state passed along.
  \<open>statusCodeOf\<close> and \<open>fileNameOf\<close> compute the callback's two locals,
  \<open>statusCode\<close> and \<open>fileName\<close>.
\<close>

definition statusCodeOf :: "jsstring \<Rightarrow> jsstring" where
  "statusCodeOf line = trim (substring line 0 2)"

definition fileNameOf :: "jsstring \<Rightarrow> jsstring" where
  "fileNameOf line = substringFrom line 3"

definition processLine :: "env \<Rightarrow> jsstring \<Rightarrow> changes \<times> descriptions \<Rightarrow> changes \<times> descriptions" where
  "processLine w line st =
     (let ch = fst st; d = snd st
      in if statusCodeOf line = js ''A'' \<or> statusCodeOf line = js ''A '' then
           (ch\<lparr>added := added ch @ [fileNameOf line]\<rparr>,
            setDescription d (fileNameOf line) (analyzeNewFile w (fileNameOf line)))
         else if statusCodeOf line = js ''M'' \<or> statusCodeOf line = js '' M'' then
           (ch\<lparr>modified := modified ch @ [fileNameOf line]\<rparr>,
            setDescription d (fileNameOf line) (analyzeModifiedFile w (fileNameOf line)))
         else if statusCodeOf line = js ''D'' \<or> statusCodeOf line = js '' D'' then
           (ch\<lparr>deleted := deleted ch @ [fileNameOf line]\<rparr>,
            setDescription d (fileNameOf line) (js ''deleted file''))
         else if statusCodeOf line = js ''R'' \<or> statusCodeOf line = js ''R '' then
           (ch\<lparr>renamed := renamed ch @ [fileNameOf line]\<rparr>,
            setDescription d (fileNameOf line) (js ''renamed file''))
         else (ch, d))"

text \<open>
  \<open>analyzeFileChanges\<close>. For an empty status the function returns \<open>{changes: {}, ...}\<close>,
  an object with no category key at all: that is \<open>None\<close>. Otherwise \<open>changes\<close> has the
  four keys.
\<close>

definition statusLines :: "jsstring \<Rightarrow> jsstring list" where
  "statusLines status = filter (\<lambda>line. trim line \<noteq> []) (splitOn LF status)"

definition analyzeFileChanges :: "env \<Rightarrow> changes option \<times> descriptions" where
  "analyzeFileChanges w =
     (let status = getGitStatus w
      in if status = [] then (None, Map.empty)
         else (let st = fold (processLine w) (statusLines status) (noChanges, Map.empty)
               in (Some (fst st), snd st)))"

section \<open>The commit message\<close>

definition sparkles :: jsstring where
  "sparkles = [0x2728]"

definition wrench :: jsstring where
  "wrench = [0xD83D, 0xDD27]"

definition wastebasket :: jsstring where
  "wastebasket = [0xD83D, 0xDDD1, 0xFE0F]"

definition arrows :: jsstring where
  "arrows = [0xD83D, 0xDD04]"

text \<open>
  The statements of \<open>generateCommitMessage\<close> after the check of the keys: \<open>message\<close> is
  built by appending, and \<open>if (message) message += "\n"\<close> tests it for emptiness.
\<close>

definition assembleMessage :: "changes \<Rightarrow> descriptions \<Rightarrow> jsstring" where
  "assembleMessage ch d =
     (let message0 = [];
          message1 =
            (if length (added ch) > 0 then
               (let m = message0 @ sparkles @ js '' Add '' @ numberToString (length (added ch))
                          @ js '' new file'' @ (if length (added ch) > 1 then js ''s'' else [])
                in if length (added ch) \<le> 2
                   then m @ js '': '' @ join (js '', '') (map (getDescription d) (added ch))
                   else m)
             else message0);
          message2 =
            (if length (modified ch) > 0 then
               (let m0 = (if message1 \<noteq> [] then message1 @ [LF] else message1);
                    m = m0 @ wrench @ js '' Update '' @ numberToString (length (modified ch))
                          @ js '' file'' @ (if length (modified ch) > 1 then js ''s'' else [])
                in if length (modified ch) \<le> 2
                   then m @ js '': '' @ join (js '', '') (map (getDescription d) (modified ch))
                   else m)
             else message1);
          message3 =
            (if length (deleted ch) > 0 then
               (let m0 = (if message2 \<noteq> [] then message2 @ [LF] else message2)
                in m0 @ wastebasket @ js '' Remove '' @ numberToString (length (deleted ch))
                     @ js '' file'' @ (if length (deleted ch) > 1 then js ''s'' else []))
             else message2);
          message4 =
            (if length (renamed ch) > 0 then
               (let m0 = (if message3 \<noteq> [] then message3 @ [LF] else message3)
                in m0 @ arrows @ js '' Rename '' @ numberToString (length (renamed ch))
                     @ js '' file'' @ (if length (renamed ch) > 1 then js ''s'' else []))
             else message3)
      in if message4 \<noteq> [] then message4 else js ''Update project files'')"

definition generateCommitMessage :: "env \<Rightarrow> jsstring" where
  "generateCommitMessage w =
     (case analyzeFileChanges w of
        (None, d) \<Rightarrow> js ''No changes to commit''
      | (Some ch, d) \<Rightarrow> assembleMessage ch d)"

section \<open>The specification's reading of the commit script\<close>

text \<open>
  The definitions of this section follow the words of the specification, not the code;
  the theorems below compare them with the functions above.

  The basename of a path without its extension, for an extension of four code units
  (\<open>.tsx\<close>, \<open>.jsx\<close>): the text after the last slash, the last four code units removed.
\<close>

definition basenameWithoutExtension :: "jsstring \<Rightarrow> jsstring" where
  "basenameWithoutExtension path =
     (let base = rev (takeWhile (\<lambda>c. c \<noteq> slash) (rev path))
      in take (length base - 4) base)"

text \<open>
  An ordered table of checks, the first match winning: each entry is a list of markers
  and a label, and an entry matches a text that contains one of its markers.
\<close>

fun firstMatch :: "(jsstring list \<times> jsstring) list \<Rightarrow> jsstring \<Rightarrow> jsstring \<Rightarrow> jsstring" where
  "firstMatch [] fallback text = fallback"
| "firstMatch ((markers, label) # rest) fallback text =
     (if list_ex (includes_js text) markers then label else firstMatch rest fallback text)"

definition componentChecks :: "(jsstring list \<times> jsstring) list" where
  "componentChecks =
     [([js ''className=''], js ''update component styling''),
      ([js ''import ''], js ''update component imports''),
      ([js ''export default''], js ''update component structure''),
      ([js ''//'', js ''/*''], js ''update component comments'')]"

text \<open>
  The summary lines of a message: one per non-empty category, in the order added,
  modified, deleted, renamed. A line states the count, with the plural \<open>s\<close> unless the
  count is one. A category \<open>withDetail\<close> appends the descriptions of its files when
  it holds at most two files. \<open>messageLines True\<close> gives the detail to every category;
  \<open>messageLines False\<close> gives it to added and modified files only.
\<close>

definition countLine :: "jsstring \<Rightarrow> string \<Rightarrow> string \<Rightarrow> nat \<Rightarrow> jsstring" where
  "countLine emoji verb noun n =
     emoji @ js verb @ numberToString n @ js noun @ (if n = 1 then [] else js ''s'')"

definition fileDetail :: "descriptions \<Rightarrow> jsstring list \<Rightarrow> jsstring" where
  "fileDetail d files = js '': '' @ join (js '', '') (map (getDescription d) files)"

definition categoryLine ::
  "bool \<Rightarrow> jsstring \<Rightarrow> string \<Rightarrow> string \<Rightarrow> descriptions \<Rightarrow> jsstring list \<Rightarrow> jsstring list" where
  "categoryLine withDetail emoji verb noun d files =
     (if files = [] then []
      else [countLine emoji verb noun (length files)
              @ (if withDetail \<and> length files \<le> 2 then fileDetail d files else [])])"

definition messageLines :: "bool \<Rightarrow> changes \<Rightarrow> descriptions \<Rightarrow> jsstring list" where
  "messageLines detailForAll ch d =
     categoryLine True sparkles '' Add '' '' new file'' d (added ch)
     @ categoryLine True wrench '' Update '' '' file'' d (modified ch)
     @ categoryLine detailForAll wastebasket '' Remove '' '' file'' d (deleted ch)
     @ categoryLine detailForAll arrows '' Rename '' '' file'' d (renamed ch)"

text \<open>
  A status line as the short format prints it: a code of two code units, a space and
  the path. An entry is the pair of the code and the path.
\<close>

definition SP :: jschar where
  "SP = 0x20"

definition statusLine :: "jsstring \<times> jsstring \<Rightarrow> jsstring" where
  "statusLine e = fst e @ [SP] @ snd e"

text \<open>
  The paths of the entries whose code is the letter \<open>code\<close> with white space before or
  after it (lemma \<open>trim_code_letter\<close> below), in the order of the entries.
\<close>

definition pathsOfCode :: "string \<Rightarrow> (jsstring \<times> jsstring) list \<Rightarrow> jsstring list" where
  "pathsOfCode code es = map snd (filter (\<lambda>e. trim (fst e) = js code) es)"

text \<open>
  For the proofs: the file names that the parser takes from the lines in which it
  reads the code \<open>code\<close>.
\<close>

definition pathsWithCode :: "string \<Rightarrow> jsstring list \<Rightarrow> jsstring list" where
  "pathsWithCode code ls = map fileNameOf (filter (\<lambda>line. statusCodeOf line = js code) ls)"

text \<open>The value of a string of decimal digits.\<close>

definition digitsValue :: "jsstring \<Rightarrow> nat" where
  "digitsValue s = foldl (\<lambda>acc c. 10 * acc + (unat c - 48)) 0 s"

section \<open>The bootstrap script\<close>

text \<open>
  The script that creates the remote repository runs its commands with \<open>execSync\<close> and
  uses only whether each returns or throws. \<open>runs\<close> says which command lines return,
  \<open>existsSync\<close> is \<open>fs.existsSync\<close> and \<open>currentDir\<close> the base name of the working
  directory. \<open>packageJson\<close> is the outcome of
  \<open>JSON.parse(fs.readFileSync("package.json", "utf8"))\<close>: it throws, it yields
  \<open>null\<close>, or it yields a value whose \<open>name\<close> is a string or is undefined (\<open>None\<close>).
  Console output is left out. A run yields how the process ended and the command
  lines it executed, in order.
\<close>

datatype manifest = ParseThrows | ParsesToNull | Parses "jsstring option"

record host =
  runs :: "jsstring \<Rightarrow> bool"
  existsSync :: "jsstring \<Rightarrow> bool"
  packageJson :: manifest
  currentDir :: jsstring

text \<open>\<open>const appName = packageJson.name\<close>, once the module has got that far.\<close>

definition appName :: "host \<Rightarrow> jsstring option" where
  "appName h = (case packageJson h of Parses name \<Rightarrow> name | _ \<Rightarrow> None)"

datatype outcome = Exited nat | Returned

definition checkGitHubCLI :: "host \<Rightarrow> jsstring list \<Rightarrow> bool \<times> jsstring list" where
  "checkGitHubCLI h executed = (runs h (js ''gh --version''), executed @ [js ''gh --version''])"

definition checkGitHubAuth :: "host \<Rightarrow> jsstring list \<Rightarrow> bool \<times> jsstring list" where
  "checkGitHubAuth h executed =
     (runs h (js ''gh auth status''), executed @ [js ''gh auth status''])"

text \<open>\<open>appName || currentDir\<close>: the empty string is falsy, as \<open>undefined\<close> is.\<close>

definition repoName :: "host \<Rightarrow> jsstring" where
  "repoName h =
     (case appName h of
        None \<Rightarrow> currentDir h
      | Some name \<Rightarrow> if name = [] then currentDir h else name)"

text \<open>\<open>createGitHubRepo\<close> catches the failure of its command and returns either way.\<close>

definition createGitHubRepo :: "host \<Rightarrow> jsstring list \<Rightarrow> jsstring list" where
  "createGitHubRepo h executed =
     executed @ [js ''gh repo create '' @ repoName h
                   @ js '' --public --source=. --remote=origin --push'']"

definition main :: "host \<Rightarrow> outcome \<times> jsstring list" where
  "main h =
     (let cli = checkGitHubCLI h []
      in if \<not> fst cli then (Exited 1, snd cli)
         else (let auth = checkGitHubAuth h (snd cli)
               in if \<not> fst auth then (Exited 1, snd auth)
                  else if \<not> existsSync h (js ''.git'') then
                    (if runs h (js ''git init'')
                     then (Returned, createGitHubRepo h (snd auth @ [js ''git init'']))
                     else (Exited 1, snd auth @ [js ''git init'']))
                  else (Returned, createGitHubRepo h (snd auth))))"

text \<open>
  The module as a whole: the manifest is read and its \<open>name\<close> taken before \<open>main\<close> is
  called. Reading or parsing may throw, and \<open>packageJson.name\<close> throws when the
  manifest is \<open>null\<close>; an exception that nothing catches ends a Node process with
  status 1.
\<close>

definition script :: "host \<Rightarrow> outcome \<times> jsstring list" where
  "script h =
     (case packageJson h of
        ParseThrows \<Rightarrow> (Exited 1, [])
      | ParsesToNull \<Rightarrow> (Exited 1, [])
      | Parses name \<Rightarrow> main h)"

definition isRepoCreate :: "jsstring \<Rightarrow> bool" where
  "isRepoCreate command = startsWith command (js ''gh repo create '')"

section \<open>Concrete environments\<close>

text \<open>The output of \<open>git status --porcelain\<close>: every line ends with a line feed.\<close>

definition porcelain :: "string list \<Rightarrow> jsstring" where
  "porcelain ls = concat (map (\<lambda>l. js l @ [LF]) ls)"

definition statusOnly :: "string list \<Rightarrow> env" where
  "statusOnly ls =
     \<lparr>execSync = map_of [(js ''git status --porcelain'', porcelain ls)],
      readFileSync = Map.empty\<rparr>"

definition w_added :: env where
  "w_added = statusOnly [''A  src/App.tsx'', ''A  README.md'']"

definition w_added_edited :: env where
  "w_added_edited = statusOnly [''A  a.ts'', ''AD b.ts'', ''AM c.ts'']"

definition w_mixed :: env where
  "w_mixed = statusOnly [''M  src/a.ts'', ''AM src/b.ts'', ''A  docs/c.md'', ''?? notes.txt'',
                         ''D  old.css'', ''R  x.js -> y.js'', '' M lib/d.ts'']"

definition w_am :: env where
  "w_am = statusOnly [''AM src/b.ts'']"

definition w_deleted :: env where
  "w_deleted = statusOnly [''D  old.txt'']"

definition w_unstaged :: env where
  "w_unstaged = statusOnly ['' M src/a.ts'', '' M src/b.ts'']"

definition w_untracked :: env where
  "w_untracked = statusOnly [''?? notes.txt'']"

definition w_clean :: env where
  "w_clean = statusOnly []"

definition w_nogit :: env where
  "w_nogit = \<lparr>execSync = Map.empty, readFileSync = Map.empty\<rparr>"

definition ch_many :: changes where
  "ch_many = \<lparr>added = [js ''a.ts'', js ''b.ts'', js ''c.ts''], modified = [js ''m.css''],
              deleted = [js ''x'', js ''y''], renamed = [js ''r'']\<rparr>"

definition d_many :: descriptions where
  "d_many = map_of [(js ''m.css'', js ''update styles'')]"

definition w_component :: env where
  "w_component =
     \<lparr>execSync = Map.empty,
      readFileSync = map_of
        [(js ''src/components/Button.tsx'', js ''export default function Button() {}''),
         (js ''src/hooks.jsx'', js ''export const x = 1'')]\<rparr>"

definition w_styled :: env where
  "w_styled =
     \<lparr>execSync = map_of
        [(js ''git diff --no-ext-diff src/App.jsx'',
          js ''+import x from \"y\"'' @ [LF] @ js ''+<div className=\"a\">'')],
      readFileSync = Map.empty\<rparr>"

definition w_failing :: env where
  "w_failing =
     \<lparr>execSync = map_of
        [(js ''git status --porcelain'',
          porcelain [''A  gone.tsx'', ''M  lost.json'', ''A  notes.md''])],
      readFileSync = map_of [(js ''notes.md'', js ''# notes'')]\<rparr>"

definition w_scenario :: env where
  "w_scenario =
     \<lparr>execSync = map_of
        [(js ''git status --porcelain'', porcelain [''A  src/Button.tsx'', ''M  package.json'']),
         (js ''git diff --no-ext-diff package.json'', js ''+  \"dependencies\": {'')],
      readFileSync = map_of [(js ''src/Button.tsx'', js ''const Button = () => null'')]\<rparr>"

definition h_nocli :: host where
  "h_nocli = \<lparr>runs = (\<lambda>c. False), existsSync = (\<lambda>p. False),
               packageJson = Parses (Some (js ''calendar'')),
               currentDir = js ''calendar''\<rparr>"

definition h_noauth :: host where
  "h_noauth = \<lparr>runs = (\<lambda>c. c = js ''gh --version''), existsSync = (\<lambda>p. False),
                packageJson = Parses (Some (js ''calendar'')),
               currentDir = js ''calendar''\<rparr>"

definition h_ready :: host where
  "h_ready = \<lparr>runs = (\<lambda>c. True), existsSync = (\<lambda>p. False),
               packageJson = Parses (Some (js ''calendar'')),
               currentDir = js ''work''\<rparr>"

section \<open>Splitting and trimming\<close>

lemma splitOn_ne: "splitOn c s \<noteq> []"
  by (induction s) (auto split: list.splits)

lemma splitOn_append_sep:
  "c \<notin> set x \<Longrightarrow> splitOn c (x @ c # r) = x # splitOn c r"
  by (induction x) (auto split: list.splits simp: splitOn_ne)

lemma splitOn_no_sep: "c \<notin> set x \<Longrightarrow> splitOn c x = [x]"
  by (induction x) (auto split: list.splits)

lemma splitOn_join:
  "ls \<noteq> [] \<Longrightarrow> \<forall>l\<in>set ls. c \<notin> set l \<Longrightarrow> splitOn c (join [c] ls) = ls"
proof (induction "[c]" ls rule: join.induct)
  case 1
  then show ?case by simp
next
  case (2 x)
  then show ?case by (simp add: splitOn_no_sep)
next
  case (3 x y ys)
  then show ?case by (simp add: splitOn_append_sep)
qed

lemma trim_Cons_ne: "\<not> isWhiteSpace c \<Longrightarrow> trim (c # s) \<noteq> []"
  by (auto simp: trim_def)

section \<open>Lines of added files\<close>

lemma statusCodeOf_A: "statusCodeOf (js ''A  '' @ p) = js ''A''"
  by (simp add: statusCodeOf_def js_def substring_def trim_def isWhiteSpace_def)

lemma fileNameOf_A: "fileNameOf (js ''A  '' @ p) = p"
  by (simp add: fileNameOf_def js_def substringFrom_def)

lemma processLine_A:
  "processLine w (js ''A  '' @ p) st =
     ((fst st)\<lparr>added := added (fst st) @ [p]\<rparr>, setDescription (snd st) p (analyzeNewFile w p))"
  by (simp add: processLine_def statusCodeOf_A fileNameOf_A Let_def)

section \<open>The status parser on every line\<close>

text \<open>A trimmed string neither starts nor ends with a white space character.\<close>

lemma trim_not_leading: "isWhiteSpace c \<Longrightarrow> trim s \<noteq> c # t"
proof
  assume ws: "isWhiteSpace c" and eq: "trim s = c # t"
  let ?u = "dropWhile isWhiteSpace s"
  from eq have "dropWhile isWhiteSpace (rev ?u) = rev t @ [c]"
    by (simp add: trim_def rev_swap)
  then have ne: "dropWhile isWhiteSpace (rev ?u) \<noteq> []"
    and l: "last (dropWhile isWhiteSpace (rev ?u)) = c"
    by simp_all
  have "last (dropWhile isWhiteSpace (rev ?u)) = last (rev ?u)"
    using ne by (metis dropWhile_eq_Nil_conv last_appendR takeWhile_dropWhile_id)
  moreover have "rev ?u \<noteq> []" using ne by (metis dropWhile.simps(1))
  ultimately have "hd ?u = c" and "?u \<noteq> []" using l by (simp_all add: last_rev)
  then show False using ws hd_dropWhile by metis
qed

lemma trim_not_trailing: "isWhiteSpace c \<Longrightarrow> trim s \<noteq> t @ [c]"
proof
  assume ws: "isWhiteSpace c" and eq: "trim s = t @ [c]"
  let ?u = "rev (dropWhile isWhiteSpace s)"
  from eq have "dropWhile isWhiteSpace ?u = c # rev t"
    by (simp add: trim_def rev_swap)
  then have "hd (dropWhile isWhiteSpace ?u) = c" and "dropWhile isWhiteSpace ?u \<noteq> []"
    by simp_all
  then show False using ws hd_dropWhile by metis
qed

lemma space_ws: "isWhiteSpace 0x20"
  by (simp add: isWhiteSpace_def)

text \<open>
  So the second alternative of each comparison of \<open>statusCode\<close>, the one with a space,
  never holds.
\<close>

lemma statusCodeOf_dead:
  "statusCodeOf line \<noteq> js ''A ''" "statusCodeOf line \<noteq> js '' M''"
  "statusCodeOf line \<noteq> js '' D''" "statusCodeOf line \<noteq> js ''R ''"
  using trim_not_trailing [OF space_ws, of "substring line 0 2" "js ''A''"]
        trim_not_leading [OF space_ws, of "substring line 0 2" "js ''M''"]
        trim_not_leading [OF space_ws, of "substring line 0 2" "js ''D''"]
        trim_not_trailing [OF space_ws, of "substring line 0 2" "js ''R''"]
  by (simp_all add: statusCodeOf_def js_def)

lemma processLine_exact:
  "processLine w line st =
     (if statusCodeOf line = js ''A'' then
        ((fst st)\<lparr>added := added (fst st) @ [fileNameOf line]\<rparr>,
         setDescription (snd st) (fileNameOf line) (analyzeNewFile w (fileNameOf line)))
      else if statusCodeOf line = js ''M'' then
        ((fst st)\<lparr>modified := modified (fst st) @ [fileNameOf line]\<rparr>,
         setDescription (snd st) (fileNameOf line) (analyzeModifiedFile w (fileNameOf line)))
      else if statusCodeOf line = js ''D'' then
        ((fst st)\<lparr>deleted := deleted (fst st) @ [fileNameOf line]\<rparr>,
         setDescription (snd st) (fileNameOf line) (js ''deleted file''))
      else if statusCodeOf line = js ''R'' then
        ((fst st)\<lparr>renamed := renamed (fst st) @ [fileNameOf line]\<rparr>,
         setDescription (snd st) (fileNameOf line) (js ''renamed file''))
      else st)"
  by (simp add: processLine_def statusCodeOf_dead Let_def)

lemma codes_distinct:
  "js ''A'' \<noteq> js ''M''" "js ''A'' \<noteq> js ''D''" "js ''A'' \<noteq> js ''R''"
  "js ''M'' \<noteq> js ''D''" "js ''M'' \<noteq> js ''R''" "js ''D'' \<noteq> js ''R''"
  by (simp_all add: js_def)

lemma fold_processLine:
  "fst (fold (processLine w) ls st) =
     \<lparr>added = added (fst st) @ pathsWithCode ''A'' ls,
      modified = modified (fst st) @ pathsWithCode ''M'' ls,
      deleted = deleted (fst st) @ pathsWithCode ''D'' ls,
      renamed = renamed (fst st) @ pathsWithCode ''R'' ls\<rparr>"
proof (induction ls arbitrary: st)
  case Nil
  show ?case by (simp add: pathsWithCode_def)
next
  case (Cons l ls)
  have "fst (fold (processLine w) (l # ls) st)
          = fst (fold (processLine w) ls (processLine w l st))"
    by simp
  also have "\<dots> =
     \<lparr>added = added (fst (processLine w l st)) @ pathsWithCode ''A'' ls,
      modified = modified (fst (processLine w l st)) @ pathsWithCode ''M'' ls,
      deleted = deleted (fst (processLine w l st)) @ pathsWithCode ''D'' ls,
      renamed = renamed (fst (processLine w l st)) @ pathsWithCode ''R'' ls\<rparr>"
    by (rule Cons.IH)
  also have "\<dots> =
     \<lparr>added = added (fst st) @ pathsWithCode ''A'' (l # ls),
      modified = modified (fst st) @ pathsWithCode ''M'' (l # ls),
      deleted = deleted (fst st) @ pathsWithCode ''D'' (l # ls),
      renamed = renamed (fst st) @ pathsWithCode ''R'' (l # ls)\<rparr>"
    using codes_distinct by (simp add: processLine_exact pathsWithCode_def)
  finally show ?case .
qed

lemma analyzeFileChanges_changes:
  "getGitStatus w \<noteq> [] \<Longrightarrow>
   fst (analyzeFileChanges w) =
     Some \<lparr>added = pathsWithCode ''A'' (statusLines (getGitStatus w)),
           modified = pathsWithCode ''M'' (statusLines (getGitStatus w)),
           deleted = pathsWithCode ''D'' (statusLines (getGitStatus w)),
           renamed = pathsWithCode ''R'' (statusLines (getGitStatus w))\<rparr>"
  by (simp add: analyzeFileChanges_def Let_def fold_processLine noChanges_def)

lemma analyzeFileChanges_empty: "getGitStatus w = [] \<Longrightarrow> analyzeFileChanges w = (None, Map.empty)"
  by (simp add: analyzeFileChanges_def)

text \<open>Every path that the parser lists has a description.\<close>

lemma described_processLine: "described st \<Longrightarrow> described (processLine w line st)"
  by (auto simp: described_def processLine_exact list_all_iff setDescription_def)

lemma described_fold: "described st \<Longrightarrow> described (fold (processLine w) ls st)"
  by (induction ls arbitrary: st) (simp_all add: described_processLine)

lemma described_analyzeFileChanges:
  "analyzeFileChanges w = (Some ch, d) \<Longrightarrow> described (ch, d)"
proof -
  assume a: "analyzeFileChanges w = (Some ch, d)"
  have "described (noChanges, Map.empty)"
    by (simp add: described_def noChanges_def)
  then have "described (fold (processLine w) (statusLines (getGitStatus w)) (noChanges, Map.empty))"
    by (rule described_fold)
  then show ?thesis
    using a by (auto simp: analyzeFileChanges_def Let_def split: if_splits)
qed

section \<open>Status lines as the short format prints them\<close>

lemma trim_unchanged:
  assumes "s \<noteq> []" and "\<not> isWhiteSpace (hd s)" and "\<not> isWhiteSpace (last s)"
    and "\<forall>c\<in>set t. isWhiteSpace c"
  shows "trim (s @ t) = s"
proof -
  have a: "dropWhile isWhiteSpace (s @ t) = s @ t"
    using assms(1,2) by (cases s) auto
  have "dropWhile isWhiteSpace (rev t @ rev s) = dropWhile isWhiteSpace (rev s)"
    by (rule dropWhile_append2) (use assms(4) in auto)
  also have "\<dots> = rev s"
    using assms(1,3) by (cases "rev s") (auto simp: last_rev hd_rev)
  finally show ?thesis by (simp add: trim_def a)
qed

lemma trim_Nil_iff: "trim s = [] \<longleftrightarrow> (\<forall>c\<in>set s. isWhiteSpace c)"
proof
  assume "trim s = []"
  then have "\<forall>x\<in>set (dropWhile isWhiteSpace s). isWhiteSpace x"
    by (simp add: trim_def dropWhile_eq_Nil_conv)
  then have "dropWhile isWhiteSpace s = []"
    using hd_dropWhile [of isWhiteSpace s] by (metis list.set_sel(1))
  then show "\<forall>c\<in>set s. isWhiteSpace c" by (simp add: dropWhile_eq_Nil_conv)
next
  assume "\<forall>c\<in>set s. isWhiteSpace c"
  then have d: "dropWhile isWhiteSpace s = []" by simp
  show "trim s = []" unfolding trim_def d by simp
qed

lemma blank_line_code: "trim line = [] \<Longrightarrow> statusCodeOf line = []"
  by (auto simp: trim_Nil_iff statusCodeOf_def substring_def dest: in_set_takeD)

lemma pathsWithCode_filter:
  "code \<noteq> [] \<Longrightarrow>
   pathsWithCode code (filter (\<lambda>line. trim line \<noteq> []) ls) = pathsWithCode code ls"
proof -
  assume "code \<noteq> []"
  then have "js code \<noteq> []" by (simp add: js_def)
  then have "(statusCodeOf line = js code \<and> trim line \<noteq> []) = (statusCodeOf line = js code)" for line
    using blank_line_code [of line] by auto
  then show ?thesis by (simp add: pathsWithCode_def conj_commute)
qed

lemma statusCodeOf_statusLine: "length (fst e) = 2 \<Longrightarrow> statusCodeOf (statusLine e) = trim (fst e)"
  by (simp add: statusCodeOf_def statusLine_def substring_def)

lemma fileNameOf_statusLine: "length (fst e) = 2 \<Longrightarrow> fileNameOf (statusLine e) = snd e"
  by (simp add: fileNameOf_def statusLine_def substringFrom_def)

lemma pathsWithCode_statusLine:
  "\<forall>e\<in>set es. length (fst e) = 2 \<Longrightarrow>
   pathsWithCode code (map statusLine es) = pathsOfCode code es"
  by (induction es)
     (simp_all add: pathsWithCode_def pathsOfCode_def statusCodeOf_statusLine fileNameOf_statusLine)

lemma LF_not_in_statusLine:
  "LF \<notin> set (fst e) \<Longrightarrow> LF \<notin> set (snd e) \<Longrightarrow> LF \<notin> set (statusLine e)"
  by (simp add: statusLine_def LF_def SP_def)

lemma join_ne: "ls \<noteq> [] \<Longrightarrow> hd ls \<noteq> [] \<Longrightarrow> join sep ls \<noteq> []"
  by (induction sep ls rule: join.induct) auto

lemma hd_join: "ls \<noteq> [] \<Longrightarrow> hd ls \<noteq> [] \<Longrightarrow> hd (join sep ls) = hd (hd ls)"
  by (induction sep ls rule: join.induct) auto

lemma last_join: "ls \<noteq> [] \<Longrightarrow> last ls \<noteq> [] \<Longrightarrow> last (join sep ls) = last (last ls)"
proof (induction sep ls rule: join.induct)
  case (1 sep)
  then show ?case by simp
next
  case (2 sep x)
  then show ?case by simp
next
  case (3 sep x y ys)
  then have "join sep (y # ys) \<noteq> []"
    by (induction sep "y # ys" arbitrary: y ys rule: join.induct) auto
  then show ?case using 3 by simp
qed

lemma analyzeFileChanges_entries:
  assumes "es \<noteq> []"
    and wf: "\<forall>e\<in>set es. length (fst e) = 2 \<and> LF \<notin> set (fst e) \<and> LF \<notin> set (snd e)"
    and status: "getGitStatus w = join [LF] (map statusLine es)"
  shows "fst (analyzeFileChanges w) =
           Some \<lparr>added = pathsOfCode ''A'' es, modified = pathsOfCode ''M'' es,
                 deleted = pathsOfCode ''D'' es, renamed = pathsOfCode ''R'' es\<rparr>"
proof -
  let ?ls = "map statusLine es"
  have "hd ?ls \<noteq> []" using assms(1) by (cases es) (auto simp: statusLine_def)
  then have ne: "getGitStatus w \<noteq> []"
    using assms(1) by (simp add: status join_ne)
  have "\<forall>l\<in>set ?ls. LF \<notin> set l" using wf by (auto simp: LF_not_in_statusLine)
  then have "splitOn LF (getGitStatus w) = ?ls"
    using assms(1) by (simp add: status splitOn_join)
  then have "pathsWithCode code (statusLines (getGitStatus w)) = pathsOfCode code es"
    if "code \<noteq> []" for code
    using that wf by (simp add: statusLines_def pathsWithCode_filter pathsWithCode_statusLine)
  then show ?thesis by (simp add: analyzeFileChanges_changes [OF ne])
qed

lemma getGitStatus_output:
  assumes out: "execSync w (js ''git status --porcelain'') = Some (join [LF] (map statusLine es) @ tail)"
    and tail: "\<forall>c\<in>set tail. isWhiteSpace c"
    and "es \<noteq> []"
    and first: "fst (hd es) \<noteq> []" "\<not> isWhiteSpace (hd (fst (hd es)))"
    and last: "snd (last es) \<noteq> []" "\<not> isWhiteSpace (last (snd (last es)))"
  shows "getGitStatus w = join [LF] (map statusLine es)"
proof -
  let ?ls = "map statusLine es"
  have h: "hd ?ls \<noteq> []" "hd (hd ?ls) = hd (fst (hd es))"
    using assms(3) first(1) by (cases es; simp add: statusLine_def)+
  have l: "last ?ls \<noteq> []" "last (last ?ls) = last (snd (last es))"
    using assms(3) last(1) by (simp_all add: last_map statusLine_def)
  have "trim (join [LF] ?ls @ tail) = join [LF] ?ls"
    using assms(3) h l first(2) last(2) tail
    by (intro trim_unchanged) (simp_all add: join_ne hd_join last_join)
  then show ?thesis by (simp add: getGitStatus_def out)
qed


lemma trim_code_letter:
  assumes "length code = 2" and "\<not> isWhiteSpace x"
  shows "trim code = [x] \<longleftrightarrow> (\<exists>y. isWhiteSpace y \<and> (code = [x, y] \<or> code = [y, x]))"
proof -
  obtain a b where c: "code = [a, b]"
    using assms(1) by (cases code; cases "tl code") auto
  show ?thesis
    using assms(2)
    by (cases "isWhiteSpace a"; cases "isWhiteSpace b") (auto simp: c trim_def)
qed

text \<open>
  C1, as the code has it. Take a status output of at least one line in which every
  line is a code of two code units, a space and a path, and every code is the letter
  \<open>A\<close> with white space before or after it. The output does not start with white
  space, its last path does not end with white space, and only white space (the final
  line feed) follows the last line. Then the ChangeSet has its four categories,
  \<open>modified\<close>, \<open>deleted\<close> and \<open>renamed\<close> are empty, and \<open>added\<close> is exactly the
  list of the paths, in the order of the input.
\<close>

theorem only_added_lines:
  assumes "execSync w (js ''git status --porcelain'')
             = Some (join [LF] (map statusLine es) @ tail)"
    and "\<forall>c\<in>set tail. isWhiteSpace c"
    and "es \<noteq> []"
    and "\<forall>e\<in>set es. length (fst e) = 2 \<and> LF \<notin> set (fst e) \<and> LF \<notin> set (snd e)"
    and "\<forall>e\<in>set es. trim (fst e) = js ''A''"
    and "\<not> isWhiteSpace (hd (fst (hd es)))"
    and "snd (last es) \<noteq> []" and "\<not> isWhiteSpace (last (snd (last es)))"
  shows "fst (analyzeFileChanges w)
           = Some \<lparr>added = map snd es, modified = [], deleted = [], renamed = []\<rparr>"
proof -
  have "fst (hd es) \<noteq> []" using assms(3,4) by (cases es) auto
  then have "getGitStatus w = join [LF] (map statusLine es)"
    using assms by (intro getGitStatus_output)
  then have r: "fst (analyzeFileChanges w) =
           Some \<lparr>added = pathsOfCode ''A'' es, modified = pathsOfCode ''M'' es,
                 deleted = pathsOfCode ''D'' es, renamed = pathsOfCode ''R'' es\<rparr>"
    using assms(3,4) by (intro analyzeFileChanges_entries)
  have a: "pathsOfCode ''A'' es = map snd es"
    using assms(5) by (simp add: pathsOfCode_def)
  have o: "pathsOfCode ''M'' es = []" "pathsOfCode ''D'' es = []" "pathsOfCode ''R'' es = []"
    using assms(5) codes_distinct by (simp_all add: pathsOfCode_def filter_empty_conv)
  show ?thesis by (simp add: r a o)
qed

theorem only_added_lines_witness:
  "execSync w_added (js ''git status --porcelain'')
     = Some (join [LF] (map statusLine [(js ''A '', js ''src/App.tsx''), (js ''A '', js ''README.md'')])
             @ [LF])
   \<and> trim (js ''A '') = js ''A''
   \<and> fst (analyzeFileChanges w_added)
       = Some \<lparr>added = [js ''src/App.tsx'', js ''README.md''], modified = [], deleted = [],
               renamed = []\<rparr>"
proof -
  let ?es = "[(js ''A '', js ''src/App.tsx''), (js ''A '', js ''README.md'')]"
  have h1: "execSync w_added (js ''git status --porcelain'')
     = Some (join [LF] (map statusLine ?es) @ [LF])"
    by code_simp
  have h2: "\<forall>c\<in>set [LF]. isWhiteSpace c" by code_simp
  have h3: "?es \<noteq> []" by simp
  have h4: "\<forall>e\<in>set ?es. length (fst e) = 2 \<and> LF \<notin> set (fst e) \<and> LF \<notin> set (snd e)"
    by code_simp
  have t: "trim (js ''A '') = js ''A''" by code_simp
  then have h5: "\<forall>e\<in>set ?es. trim (fst e) = js ''A''" by simp
  have h6: "\<not> isWhiteSpace (hd (fst (hd ?es)))" by code_simp
  have h7: "snd (last ?es) \<noteq> []" by code_simp
  have h8: "\<not> isWhiteSpace (last (snd (last ?es)))" by code_simp
  have "fst (analyzeFileChanges w_added)
       = Some \<lparr>added = [js ''src/App.tsx'', js ''README.md''], modified = [], deleted = [],
               renamed = []\<rparr>"
    using only_added_lines [OF h1 h2 h3 h4 h5 h6 h7 h8] by simp
  with h1 t show ?thesis by (intro conjI)
qed

text \<open>
  The claim as it is written fails on the two-letter codes of added files: of the lines
  \<open>A  a.ts\<close>, \<open>AD b.ts\<close> and \<open>AM c.ts\<close> only the first path reaches \<open>added\<close>. For
  the empty output the ChangeSet has no category at all.
\<close>

theorem added_codes_AD_AM_dropped:
  "execSync w_added_edited (js ''git status --porcelain'')
     = Some (js ''A  a.ts'' @ [LF] @ js ''AD b.ts'' @ [LF] @ js ''AM c.ts'' @ [LF])
   \<and> startsWith (js ''A '') (js ''A'') \<and> startsWith (js ''AD'') (js ''A'')
   \<and> startsWith (js ''AM'') (js ''A'')
   \<and> fst (analyzeFileChanges w_added_edited)
       = Some \<lparr>added = [js ''a.ts''], modified = [], deleted = [], renamed = []\<rparr>
   \<and> execSync w_clean (js ''git status --porcelain'') = Some []
   \<and> fst (analyzeFileChanges w_clean) = None"
  by code_simp

text \<open>
  C2, as the code has it. Take a status output of at least one line in which every
  line is a code of two code units, a space and a path; the output does not start
  with white space, its last path does not end with white space, and only white space
  follows the last line. Then the path of a line goes to \<open>added\<close> when its code is the
  letter \<open>A\<close> with white space before or after it, to \<open>modified\<close> when it is \<open>M\<close>
  so written, to \<open>deleted\<close> when it is \<open>D\<close>, to \<open>renamed\<close> when it is \<open>R\<close>; a line
  with any other code goes to no category. Each category lists its paths in the order
  of the lines.
\<close>

theorem status_lines_routed:
  assumes "execSync w (js ''git status --porcelain'')
             = Some (join [LF] (map statusLine es) @ tail)"
    and "\<forall>c\<in>set tail. isWhiteSpace c"
    and "es \<noteq> []"
    and "\<forall>e\<in>set es. length (fst e) = 2 \<and> LF \<notin> set (fst e) \<and> LF \<notin> set (snd e)"
    and "\<not> isWhiteSpace (hd (fst (hd es)))"
    and "snd (last es) \<noteq> []" and "\<not> isWhiteSpace (last (snd (last es)))"
  shows "fst (analyzeFileChanges w) =
           Some \<lparr>added = pathsOfCode ''A'' es, modified = pathsOfCode ''M'' es,
                 deleted = pathsOfCode ''D'' es, renamed = pathsOfCode ''R'' es\<rparr>"
proof -
  have "fst (hd es) \<noteq> []" using assms(3,4) by (cases es) auto
  then have "getGitStatus w = join [LF] (map statusLine es)"
    using assms by (intro getGitStatus_output)
  then show ?thesis
    using assms(3,4) by (intro analyzeFileChanges_entries)
qed

theorem status_lines_routed_witness:
  "execSync w_mixed (js ''git status --porcelain'')
     = Some (join [LF] (map statusLine
               [(js ''M '', js ''src/a.ts''), (js ''AM'', js ''src/b.ts''),
                (js ''A '', js ''docs/c.md''), (js ''??'', js ''notes.txt''),
                (js ''D '', js ''old.css''), (js ''R '', js ''x.js -> y.js''),
                (js '' M'', js ''lib/d.ts'')]) @ [LF])
   \<and> fst (analyzeFileChanges w_mixed)
       = Some \<lparr>added = [js ''docs/c.md''], modified = [js ''src/a.ts'', js ''lib/d.ts''],
               deleted = [js ''old.css''], renamed = [js ''x.js -> y.js'']\<rparr>"
proof -
  let ?es = "[(js ''M '', js ''src/a.ts''), (js ''AM'', js ''src/b.ts''),
                (js ''A '', js ''docs/c.md''), (js ''??'', js ''notes.txt''),
                (js ''D '', js ''old.css''), (js ''R '', js ''x.js -> y.js''),
                (js '' M'', js ''lib/d.ts'')]"
  have h1: "execSync w_mixed (js ''git status --porcelain'')
     = Some (join [LF] (map statusLine ?es) @ [LF])"
    by code_simp
  have h2: "\<forall>c\<in>set [LF]. isWhiteSpace c" by code_simp
  have h3: "?es \<noteq> []" by simp
  have h4: "\<forall>e\<in>set ?es. length (fst e) = 2 \<and> LF \<notin> set (fst e) \<and> LF \<notin> set (snd e)"
    by code_simp
  have h5: "\<not> isWhiteSpace (hd (fst (hd ?es)))" by code_simp
  have h6: "snd (last ?es) \<noteq> []" by code_simp
  have h7: "\<not> isWhiteSpace (last (snd (last ?es)))" by code_simp
  have a: "pathsOfCode ''A'' ?es = [js ''docs/c.md'']" by code_simp
  have m: "pathsOfCode ''M'' ?es = [js ''src/a.ts'', js ''lib/d.ts'']" by code_simp
  have d: "pathsOfCode ''D'' ?es = [js ''old.css'']" by code_simp
  have r: "pathsOfCode ''R'' ?es = [js ''x.js -> y.js'']" by code_simp
  have c: "fst (analyzeFileChanges w_mixed)
       = Some \<lparr>added = [js ''docs/c.md''], modified = [js ''src/a.ts'', js ''lib/d.ts''],
               deleted = [js ''old.css''], renamed = [js ''x.js -> y.js'']\<rparr>"
    using status_lines_routed [OF h1 h2 h3 h4 h5 h6 h7] by (simp only: a m d r)
  from h1 c show ?thesis by (intro conjI)
qed

text \<open>
  The claim as it is written fails on a line whose code starts with \<open>A\<close> without being
  \<open>A\<close>: the line \<open>AM src/b.ts\<close>, a file added and then edited, goes to no category.
\<close>

theorem code_AM_dropped:
  "execSync w_am (js ''git status --porcelain'') = Some (js ''AM src/b.ts'' @ [LF])
   \<and> statusLines (getGitStatus w_am) = [js ''AM src/b.ts'']
   \<and> startsWith (substring (js ''AM src/b.ts'') 0 2) (js ''A'')
   \<and> fst (analyzeFileChanges w_am)
       = Some \<lparr>added = [], modified = [], deleted = [], renamed = []\<rparr>"
  by code_simp

text \<open>
  \<open>getGitStatus\<close> trims the whole output, not each line. When the first line starts
  with a space, as the line of a file that is modified and not staged does, that space
  is lost: the code of the line is still read as \<open>M\<close>, and the path, taken from
  index 3, loses its first code unit. Later lines keep their space and their path.
\<close>

lemma first_line_loses_leading_space:
  "execSync w_unstaged (js ''git status --porcelain'')
     = Some (js '' M src/a.ts'' @ [LF] @ js '' M src/b.ts'' @ [LF])
   \<and> statusLines (getGitStatus w_unstaged) = [js ''M src/a.ts'', js '' M src/b.ts'']
   \<and> fst (analyzeFileChanges w_unstaged)
       = Some \<lparr>added = [], modified = [js ''rc/a.ts'', js ''src/b.ts''], deleted = [],
               renamed = []\<rparr>"
  by code_simp

section \<open>The message as a list of lines\<close>

lemma plural_iff: "xs \<noteq> [] \<Longrightarrow> (Suc 0 < length xs) = (length xs \<noteq> Suc 0)"
  by (cases xs) auto

lemma emoji_ne: "sparkles \<noteq> []" "wrench \<noteq> []" "wastebasket \<noteq> []" "arrows \<noteq> []"
  by (simp_all add: sparkles_def wrench_def wastebasket_def arrows_def)

lemma assembleMessage_lines:
  "assembleMessage ch d =
     (if messageLines False ch d = [] then js ''Update project files''
      else join [LF] (messageLines False ch d))"
  by (cases "added ch = []"; cases "modified ch = []"; cases "deleted ch = []";
      cases "renamed ch = []")
     (simp_all add: assembleMessage_def messageLines_def categoryLine_def countLine_def
        fileDetail_def Let_def plural_iff emoji_ne)

text \<open>The count that a line states is the decimal numeral of the number of files.\<close>

lemma digitsValue_snoc: "digitsValue (s @ [c]) = 10 * digitsValue s + (unat c - 48)"
  by (simp add: digitsValue_def)

lemma unat_digit: "d < 10 \<Longrightarrow> unat (of_nat (48 + d) :: jschar) = 48 + d"
proof -
  assume "d < 10"
  have "unat (of_nat (48 + d) :: jschar) = (48 + d) mod 2 ^ LENGTH(16)"
    by (rule unat_of_nat)
  then show ?thesis using \<open>d < 10\<close> by simp
qed

lemma digitsValue_digit:
  "d < 10 \<Longrightarrow> digitsValue (s @ [of_nat (48 + d)]) = 10 * digitsValue s + d"
  using unat_digit [of d] by (simp only: digitsValue_snoc)

lemma numberToString_value: "digitsValue (numberToString n) = n"
proof (induction n rule: numberToString.induct)
  case (1 n)
  show ?case
  proof (cases "n < 10")
    case True
    have "numberToString n = [] @ [of_nat (48 + n)]"
      using True by (subst numberToString.simps) simp
    then have "digitsValue (numberToString n) = 10 * digitsValue [] + n"
      using True by (simp only: digitsValue_digit)
    then show ?thesis by (simp add: digitsValue_def)
  next
    case False
    then have ih: "digitsValue (numberToString (n div 10)) = n div 10" using 1 by simp
    have "numberToString n = numberToString (n div 10) @ [of_nat (48 + n mod 10)]"
      using False by (subst numberToString.simps) simp
    then have "digitsValue (numberToString n)
                 = 10 * digitsValue (numberToString (n div 10)) + n mod 10"
      by (simp only: digitsValue_digit [of "n mod 10"] mod_less_divisor [of 10 n, simplified])
    then show ?thesis using ih by simp
  qed
qed

text \<open>
  C3, as the code has it. The message is the list of summary lines joined by line
  feeds, one line per non-empty category in the order added, modified, deleted,
  renamed (and the fallback text when every category is empty). Each line states the
  number of files of its category in decimal, with the plural \<open>s\<close> unless the number is
  one. The lines of added and of modified files append a colon and the descriptions of
  the files, joined by a comma and a space, exactly when the category has at most two
  files; the lines of deleted and of renamed files never list descriptions.
\<close>

theorem message_lines_joined:
  "assembleMessage ch d =
     (if messageLines False ch d = [] then js ''Update project files''
      else join [LF] (messageLines False ch d))
   \<and> digitsValue (numberToString n) = n"
  by (simp add: assembleMessage_lines numberToString_value)

theorem message_lines_joined_witness:
  "messageLines False ch_many d_many
     = [sparkles @ js '' Add 3 new files'', wrench @ js '' Update 1 file: update styles'',
        wastebasket @ js '' Remove 2 files'', arrows @ js '' Rename 1 file'']
   \<and> assembleMessage ch_many d_many
       = sparkles @ js '' Add 3 new files'' @ [LF]
         @ wrench @ js '' Update 1 file: update styles'' @ [LF]
         @ wastebasket @ js '' Remove 2 files'' @ [LF] @ arrows @ js '' Rename 1 file''"
proof -
  have ls: "messageLines False ch_many d_many
     = [sparkles @ js '' Add 3 new files'', wrench @ js '' Update 1 file: update styles'',
        wastebasket @ js '' Remove 2 files'', arrows @ js '' Rename 1 file'']"
    by code_simp
  have "assembleMessage ch_many d_many = join [LF] (messageLines False ch_many d_many)"
    using message_lines_joined [of ch_many d_many 0] by (simp add: ls)
  then have "assembleMessage ch_many d_many
       = sparkles @ js '' Add 3 new files'' @ [LF]
         @ wrench @ js '' Update 1 file: update styles'' @ [LF]
         @ wastebasket @ js '' Remove 2 files'' @ [LF] @ arrows @ js '' Rename 1 file''"
    by (simp add: ls)
  with ls show ?thesis by (intro conjI)
qed

text \<open>
  The claim as it is written fails on a deleted file: the category holds one file, the
  file has the description \<open>deleted file\<close>, and the line lists no description.
\<close>

theorem deleted_line_without_detail:
  "fst (analyzeFileChanges w_deleted)
     = Some \<lparr>added = [], modified = [], deleted = [js ''old.txt''], renamed = []\<rparr>
   \<and> snd (analyzeFileChanges w_deleted) (js ''old.txt'') = Some (js ''deleted file'')
   \<and> generateCommitMessage w_deleted = wastebasket @ js '' Remove 1 file''
   \<and> join [LF] (messageLines True
                   \<lparr>added = [], modified = [], deleted = [js ''old.txt''], renamed = []\<rparr>
                   (snd (analyzeFileChanges w_deleted)))
       = wastebasket @ js '' Remove 1 file: deleted file''
   \<and> generateCommitMessage w_deleted \<noteq> wastebasket @ js '' Remove 1 file: deleted file''"
  by code_simp

section \<open>Descriptions of component files\<close>

lemma splitOn_tl_ne: "c \<in> set s \<Longrightarrow> tl (splitOn c s) \<noteq> []"
  by (induction s) (auto split: list.splits simp: splitOn_ne)

text \<open>The last piece of a split is the text after the last separator.\<close>

lemma last_splitOn: "last (splitOn c s) = rev (takeWhile (\<lambda>x. x \<noteq> c) (rev s))"
proof (induction s)
  case Nil
  show ?case by simp
next
  case (Cons x s)
  show ?case
  proof (cases "x = c")
    case True
    then show ?thesis using Cons by (simp add: splitOn_ne takeWhile_tail)
  next
    case False
    obtain piece pieces where sp: "splitOn c s = piece # pieces"
      using splitOn_ne [of c s] by (cases "splitOn c s") auto
    show ?thesis
    proof (cases "c \<in> set s")
      case True
      then have "pieces \<noteq> []" using splitOn_tl_ne [of c s] sp by simp
      then have "last (splitOn c (x # s)) = last (splitOn c s)"
        using False sp by simp
      moreover have "takeWhile (\<lambda>x. x \<noteq> c) (rev s @ [x]) = takeWhile (\<lambda>x. x \<noteq> c) (rev s)"
        using True by (simp add: takeWhile_append1)
      ultimately show ?thesis using Cons by simp
    next
      case notin: False
      have a: "splitOn c (x # s) = [x # s]"
        using notin False by (intro splitOn_no_sep) simp
      have "\<forall>y\<in>set (rev s). y \<noteq> c" using notin by auto
      then have b: "takeWhile (\<lambda>x. x \<noteq> c) (rev s @ [x]) = rev s @ [x]"
        using False by (simp add: takeWhile_append2)
      show ?thesis unfolding a rev.simps b by simp
    qed
  qed
qed

lemma startsWith_takeWhile:
  "startsWith s p \<Longrightarrow> c \<notin> set p \<Longrightarrow> startsWith (takeWhile (\<lambda>x. x \<noteq> c) s) p"
  by (induction s p rule: startsWith.induct) auto

lemma endsWith_basename:
  "endsWith f e \<Longrightarrow> slash \<notin> set e \<Longrightarrow> endsWith (last (splitOn slash f)) e"
  by (simp add: endsWith_def last_splitOn startsWith_takeWhile)

lemma ext_no_slash: "slash \<notin> set (js ''.tsx'')" "slash \<notin> set (js ''.jsx'')"
  by (simp_all add: js_def slash_def)

text \<open>
  C4. For an added file whose path ends in \<open>.tsx\<close> or \<open>.jsx\<close> and whose content can be
  read: when the content contains \<open>export default function\<close> or
  \<open>export default class\<close>, \<open>analyzeNewFile\<close> returns \<open>new React component: \<close>
  followed by the basename of the path without its extension; otherwise it returns
  \<open>new React component\<close>.
\<close>

theorem new_component_label:
  assumes "endsWith f (js ''.tsx'') \<or> endsWith f (js ''.jsx'')"
    and "readFileSync w f = Some content"
  shows "analyzeNewFile w f =
           (if includes_js content (js ''export default function'')
               \<or> includes_js content (js ''export default class'')
            then js ''new React component: '' @ basenameWithoutExtension f
            else js ''new React component'')"
proof -
  have "endsWith (last (splitOn slash f)) (js ''.tsx'')
          \<or> endsWith (last (splitOn slash f)) (js ''.jsx'')"
    using assms(1) endsWith_basename ext_no_slash by blast
  then have "replaceExt (last (splitOn slash f)) = basenameWithoutExtension f"
    by (simp add: replaceExt_def basenameWithoutExtension_def last_splitOn Let_def)
  then show ?thesis using assms by (simp add: analyzeNewFile_def)
qed

theorem new_component_label_witness:
  "(endsWith (js ''src/components/Button.tsx'') (js ''.tsx'')
      \<or> endsWith (js ''src/components/Button.tsx'') (js ''.jsx''))
   \<and> readFileSync w_component (js ''src/components/Button.tsx'')
       = Some (js ''export default function Button() {}'')
   \<and> analyzeNewFile w_component (js ''src/components/Button.tsx'')
       = js ''new React component: Button''
   \<and> (endsWith (js ''src/hooks.jsx'') (js ''.tsx'') \<or> endsWith (js ''src/hooks.jsx'') (js ''.jsx''))
   \<and> readFileSync w_component (js ''src/hooks.jsx'') = Some (js ''export const x = 1'')
   \<and> analyzeNewFile w_component (js ''src/hooks.jsx'') = js ''new React component''"
proof -
  have e1: "endsWith (js ''src/components/Button.tsx'') (js ''.tsx'')
      \<or> endsWith (js ''src/components/Button.tsx'') (js ''.jsx'')"
    by code_simp
  have r1: "readFileSync w_component (js ''src/components/Button.tsx'')
       = Some (js ''export default function Button() {}'')"
    by code_simp
  have i1: "includes_js (js ''export default function Button() {}'')
              (js ''export default function'')"
    by code_simp
  have b1: "js ''new React component: '' @ basenameWithoutExtension (js ''src/components/Button.tsx'')
              = js ''new React component: Button''"
    by code_simp
  have a1: "analyzeNewFile w_component (js ''src/components/Button.tsx'')
       = js ''new React component: Button''"
    using new_component_label [OF e1 r1] by (simp add: i1 b1)
  have e2: "endsWith (js ''src/hooks.jsx'') (js ''.tsx'') \<or> endsWith (js ''src/hooks.jsx'') (js ''.jsx'')"
    by code_simp
  have r2: "readFileSync w_component (js ''src/hooks.jsx'') = Some (js ''export const x = 1'')"
    by code_simp
  have i2: "\<not> includes_js (js ''export const x = 1'') (js ''export default function'')"
    "\<not> includes_js (js ''export const x = 1'') (js ''export default class'')"
    by code_simp+
  have a2: "analyzeNewFile w_component (js ''src/hooks.jsx'') = js ''new React component''"
    using new_component_label [OF e2 r2] by (simp add: i2)
  from e1 r1 a1 e2 r2 a2 show ?thesis by (intro conjI)
qed

section \<open>Descriptions of modified component files\<close>

lemma firstMatch_component:
  "firstMatch componentChecks (js ''update React component'') diff =
     (if includes_js diff (js ''className='') then js ''update component styling''
      else if includes_js diff (js ''import '') then js ''update component imports''
      else if includes_js diff (js ''export default'') then js ''update component structure''
      else if includes_js diff (js ''//'') \<or> includes_js diff (js ''/*'')
        then js ''update component comments''
      else js ''update React component'')"
  by (simp add: componentChecks_def)

text \<open>
  C5. For a modified file whose path ends in \<open>.tsx\<close> or \<open>.jsx\<close> and whose diff was
  computed, \<open>analyzeModifiedFile\<close> returns the label of the first entry of the ordered
  table \<open>componentChecks\<close> (styling attribute, import, export default, comment markers)
  one of whose markers the diff contains, and \<open>update React component\<close> when none
  matches. In particular a diff that contains the styling marker yields
  \<open>update component styling\<close>, whatever else it contains.
\<close>

theorem modified_component_first_match:
  assumes "endsWith f (js ''.tsx'') \<or> endsWith f (js ''.jsx'')"
    and "execSync w (js ''git diff --no-ext-diff '' @ f) = Some diff"
  shows "analyzeModifiedFile w f
           = firstMatch componentChecks (js ''update React component'') diff
         \<and> (includes_js diff (js ''className='') \<and> includes_js diff (js ''import '')
              \<longrightarrow> analyzeModifiedFile w f = js ''update component styling'')"
  using assms by (simp add: analyzeModifiedFile_def firstMatch_component)

theorem modified_component_first_match_witness:
  "(endsWith (js ''src/App.jsx'') (js ''.tsx'') \<or> endsWith (js ''src/App.jsx'') (js ''.jsx''))
   \<and> execSync w_styled (js ''git diff --no-ext-diff '' @ js ''src/App.jsx'')
       = Some (js ''+import x from \"y\"'' @ [LF] @ js ''+<div className=\"a\">'')
   \<and> includes_js (js ''+import x from \"y\"'' @ [LF] @ js ''+<div className=\"a\">'')
         (js ''className='')
   \<and> includes_js (js ''+import x from \"y\"'' @ [LF] @ js ''+<div className=\"a\">'')
         (js ''import '')
   \<and> analyzeModifiedFile w_styled (js ''src/App.jsx'') = js ''update component styling''"
proof -
  have e: "endsWith (js ''src/App.jsx'') (js ''.tsx'') \<or> endsWith (js ''src/App.jsx'') (js ''.jsx'')"
    by code_simp
  have x: "execSync w_styled (js ''git diff --no-ext-diff '' @ js ''src/App.jsx'')
       = Some (js ''+import x from \"y\"'' @ [LF] @ js ''+<div className=\"a\">'')"
    by code_simp
  have i1: "includes_js (js ''+import x from \"y\"'' @ [LF] @ js ''+<div className=\"a\">'')
         (js ''className='')"
    by code_simp
  have i2: "includes_js (js ''+import x from \"y\"'' @ [LF] @ js ''+<div className=\"a\">'')
         (js ''import '')"
    by code_simp
  have a: "analyzeModifiedFile w_styled (js ''src/App.jsx'') = js ''update component styling''"
    using modified_component_first_match [OF e x] i1 i2 by blast
  from e x i1 i2 a show ?thesis by (intro conjI)
qed

section \<open>The sentinel and the fallback\<close>

lemma assembleMessage_noChanges:
  "assembleMessage \<lparr>added = [], modified = [], deleted = [], renamed = []\<rparr> d = js ''Update project files''"
  by (simp add: assembleMessage_def)

lemma sentinel_ne_fallback: "js ''No changes to commit'' \<noteq> js ''Update project files''"
  by (simp add: js_def)

lemma assembleMessage_not_sentinel: "assembleMessage ch d \<noteq> js ''No changes to commit''"
  by (cases "added ch = []"; cases "modified ch = []"; cases "deleted ch = []";
      cases "renamed ch = []")
     (simp_all add: assembleMessage_def Let_def sparkles_def wrench_def wastebasket_def
        arrows_def js_def)

lemma generateCommitMessage_empty:
  "getGitStatus w = [] \<Longrightarrow> generateCommitMessage w = js ''No changes to commit''"
  by (simp add: generateCommitMessage_def analyzeFileChanges_empty)

lemma generateCommitMessage_Some:
  "fst (analyzeFileChanges w) = Some ch \<Longrightarrow>
   generateCommitMessage w = assembleMessage ch (snd (analyzeFileChanges w))"
  by (cases "analyzeFileChanges w") (simp add: generateCommitMessage_def)

lemma analyzeFileChanges_None_iff: "fst (analyzeFileChanges w) = None \<longleftrightarrow> getGitStatus w = []"
  by (simp add: analyzeFileChanges_def Let_def)

lemma sentinel_iff:
  "generateCommitMessage w = js ''No changes to commit'' \<longleftrightarrow> getGitStatus w = []"
proof
  assume s: "generateCommitMessage w = js ''No changes to commit''"
  show "getGitStatus w = []"
  proof (rule ccontr)
    assume "getGitStatus w \<noteq> []"
    then obtain ch where "fst (analyzeFileChanges w) = Some ch"
      using analyzeFileChanges_changes by blast
    then show False using s assembleMessage_not_sentinel by (simp add: generateCommitMessage_Some)
  qed
next
  assume "getGitStatus w = []"
  then show "generateCommitMessage w = js ''No changes to commit''"
    by (rule generateCommitMessage_empty)
qed

lemma pathsWithCode_none:
  "\<forall>line\<in>set ls. statusCodeOf line \<noteq> js code \<Longrightarrow> pathsWithCode code ls = []"
  by (simp add: pathsWithCode_def filter_empty_conv)

text \<open>
  C6. When the status text is empty, \<open>generateCommitMessage\<close> returns
  \<open>No changes to commit\<close>: the ChangeSet has no key and the statements that assemble
  the message are not reached. When the ChangeSet has its four keys and every category
  is empty, the result is \<open>Update project files\<close>. The two texts differ.
\<close>

theorem sentinel_and_fallback:
  "(getGitStatus w = [] \<longrightarrow> generateCommitMessage w = js ''No changes to commit'')
   \<and> (fst (analyzeFileChanges w)
         = Some \<lparr>added = [], modified = [], deleted = [], renamed = []\<rparr>
       \<longrightarrow> generateCommitMessage w = js ''Update project files'')
   \<and> js ''No changes to commit'' \<noteq> js ''Update project files''"
  by (simp add: generateCommitMessage_empty generateCommitMessage_Some
      assembleMessage_noChanges sentinel_ne_fallback)

theorem sentinel_and_fallback_witness:
  "getGitStatus w_clean = []
   \<and> generateCommitMessage w_clean = js ''No changes to commit''
   \<and> getGitStatus w_nogit = []
   \<and> generateCommitMessage w_nogit = js ''No changes to commit''
   \<and> fst (analyzeFileChanges w_untracked)
       = Some \<lparr>added = [], modified = [], deleted = [], renamed = []\<rparr>
   \<and> generateCommitMessage w_untracked = js ''Update project files''"
proof -
  have c: "getGitStatus w_clean = []" by code_simp
  have n: "getGitStatus w_nogit = []" by code_simp
  have u: "fst (analyzeFileChanges w_untracked)
       = Some \<lparr>added = [], modified = [], deleted = [], renamed = []\<rparr>"
    by code_simp
  have mc: "generateCommitMessage w_clean = js ''No changes to commit''"
    using sentinel_and_fallback [of w_clean] c by blast
  have mn: "generateCommitMessage w_nogit = js ''No changes to commit''"
    using sentinel_and_fallback [of w_nogit] n by blast
  have mu: "generateCommitMessage w_untracked = js ''Update project files''"
    using sentinel_and_fallback [of w_untracked] u by blast
  from c mc n mn u mu show ?thesis by (intro conjI)
qed

text \<open>
  C10. When the status text is not empty and no line has a code that the parser
  recognises (\<open>A\<close>, \<open>M\<close>, \<open>D\<close> or \<open>R\<close> once trimmed), \<open>generateCommitMessage\<close>
  returns \<open>Update project files\<close>. It returns \<open>No changes to commit\<close> exactly when
  the status text is empty, and exactly then \<open>analyzeFileChanges\<close> returns a ChangeSet
  without category keys.
\<close>

theorem unrecognised_lines_give_fallback:
  "(getGitStatus w \<noteq> []
      \<and> (\<forall>line\<in>set (statusLines (getGitStatus w)).
            statusCodeOf line \<noteq> js ''A'' \<and> statusCodeOf line \<noteq> js ''M''
            \<and> statusCodeOf line \<noteq> js ''D'' \<and> statusCodeOf line \<noteq> js ''R'')
      \<longrightarrow> generateCommitMessage w = js ''Update project files'')
   \<and> (generateCommitMessage w = js ''No changes to commit'' \<longleftrightarrow> getGitStatus w = [])
   \<and> (fst (analyzeFileChanges w) = None \<longleftrightarrow> getGitStatus w = [])"
proof (intro conjI impI)
  assume h: "getGitStatus w \<noteq> []
      \<and> (\<forall>line\<in>set (statusLines (getGitStatus w)).
            statusCodeOf line \<noteq> js ''A'' \<and> statusCodeOf line \<noteq> js ''M''
            \<and> statusCodeOf line \<noteq> js ''D'' \<and> statusCodeOf line \<noteq> js ''R'')"
  then have "fst (analyzeFileChanges w)
         = Some \<lparr>added = [], modified = [], deleted = [], renamed = []\<rparr>"
    by (simp add: analyzeFileChanges_changes pathsWithCode_none)
  then show "generateCommitMessage w = js ''Update project files''"
    by (simp add: generateCommitMessage_Some assembleMessage_noChanges)
next
  show "generateCommitMessage w = js ''No changes to commit'' \<longleftrightarrow> getGitStatus w = []"
    by (rule sentinel_iff)
next
  show "fst (analyzeFileChanges w) = None \<longleftrightarrow> getGitStatus w = []"
    by (rule analyzeFileChanges_None_iff)
qed

theorem unrecognised_lines_give_fallback_witness:
  "getGitStatus w_untracked \<noteq> []
   \<and> statusLines (getGitStatus w_untracked) = [js ''?? notes.txt'']
   \<and> statusCodeOf (js ''?? notes.txt'') = js ''??''
   \<and> generateCommitMessage w_untracked = js ''Update project files''
   \<and> generateCommitMessage w_untracked \<noteq> js ''No changes to commit''"
proof -
  have ne: "getGitStatus w_untracked \<noteq> []" by code_simp
  have ls: "statusLines (getGitStatus w_untracked) = [js ''?? notes.txt'']" by code_simp
  have c: "statusCodeOf (js ''?? notes.txt'') = js ''??''" by code_simp
  have d: "js ''??'' \<noteq> js ''A''" "js ''??'' \<noteq> js ''M''" "js ''??'' \<noteq> js ''D''"
    "js ''??'' \<noteq> js ''R''"
    by (simp_all add: js_def)
  have h: "\<forall>line\<in>set (statusLines (getGitStatus w_untracked)).
            statusCodeOf line \<noteq> js ''A'' \<and> statusCodeOf line \<noteq> js ''M''
            \<and> statusCodeOf line \<noteq> js ''D'' \<and> statusCodeOf line \<noteq> js ''R''"
    using d by (simp add: ls c)
  have m: "generateCommitMessage w_untracked = js ''Update project files''"
    using unrecognised_lines_give_fallback [of w_untracked] ne h by blast
  have s: "generateCommitMessage w_untracked \<noteq> js ''No changes to commit''"
    using unrecognised_lines_give_fallback [of w_untracked] ne by blast
  from ne ls c m s show ?thesis by (intro conjI)
qed

section \<open>Failures of the analysis of one file\<close>

lemma statusCodeOf_M: "statusCodeOf (js ''M  '' @ p) = js ''M''"
  by (simp add: statusCodeOf_def js_def substring_def trim_def isWhiteSpace_def)

lemma fileNameOf_M: "fileNameOf (js ''M  '' @ p) = p"
  by (simp add: fileNameOf_def js_def substringFrom_def)

lemma processLine_M:
  "processLine w (js ''M  '' @ p) st =
     ((fst st)\<lparr>modified := modified (fst st) @ [p]\<rparr>,
      setDescription (snd st) p (analyzeModifiedFile w p))"
  using codes_distinct by (simp add: processLine_exact statusCodeOf_M fileNameOf_M)

text \<open>
  C7. When the content of an added file cannot be read, \<open>analyzeNewFile\<close> returns
  \<open>new file\<close>; when the diff of a modified file cannot be computed,
  \<open>analyzeModifiedFile\<close> returns \<open>update file\<close>. In both cases the parser records the
  file in its category with that label and goes on with the remaining lines.
\<close>

theorem analysis_failures_recovered:
  "(readFileSync w f = None \<longrightarrow> analyzeNewFile w f = js ''new file'')
   \<and> (execSync w (js ''git diff --no-ext-diff '' @ f) = None
        \<longrightarrow> analyzeModifiedFile w f = js ''update file'')
   \<and> (readFileSync w f = None \<longrightarrow>
        fold (processLine w) ((js ''A  '' @ f) # rest) st
          = fold (processLine w) rest
              ((fst st)\<lparr>added := added (fst st) @ [f]\<rparr>,
               setDescription (snd st) f (js ''new file'')))
   \<and> (execSync w (js ''git diff --no-ext-diff '' @ f) = None \<longrightarrow>
        fold (processLine w) ((js ''M  '' @ f) # rest) st
          = fold (processLine w) rest
              ((fst st)\<lparr>modified := modified (fst st) @ [f]\<rparr>,
               setDescription (snd st) f (js ''update file'')))"
proof -
  have a: "readFileSync w f = None \<Longrightarrow> analyzeNewFile w f = js ''new file''"
    by (simp add: analyzeNewFile_def)
  have b: "execSync w (js ''git diff --no-ext-diff '' @ f) = None
             \<Longrightarrow> analyzeModifiedFile w f = js ''update file''"
    by (simp add: analyzeModifiedFile_def)
  have pa: "processLine w (js ''A  '' @ f) st
              = ((fst st)\<lparr>added := added (fst st) @ [f]\<rparr>,
                 setDescription (snd st) f (analyzeNewFile w f))"
    by (rule processLine_A)
  have pm: "processLine w (js ''M  '' @ f) st
              = ((fst st)\<lparr>modified := modified (fst st) @ [f]\<rparr>,
                 setDescription (snd st) f (analyzeModifiedFile w f))"
    by (rule processLine_M)
  show ?thesis using a b by (simp add: pa pm)
qed


theorem analysis_failures_recovered_witness:
  "readFileSync w_failing (js ''gone.tsx'') = None
   \<and> analyzeNewFile w_failing (js ''gone.tsx'') = js ''new file''
   \<and> execSync w_failing (js ''git diff --no-ext-diff '' @ js ''lost.json'') = None
   \<and> analyzeModifiedFile w_failing (js ''lost.json'') = js ''update file''
   \<and> statusLines (getGitStatus w_failing)
       = [js ''A  gone.tsx'', js ''M  lost.json'', js ''A  notes.md'']
   \<and> generateCommitMessage w_failing
       = sparkles @ js '' Add 2 new files: new file, new documentation'' @ [LF]
         @ wrench @ js '' Update 1 file: update file''"
proof -
  have r: "readFileSync w_failing (js ''gone.tsx'') = None" by code_simp
  have x: "execSync w_failing (js ''git diff --no-ext-diff '' @ js ''lost.json'') = None"
    by code_simp
  have a: "analyzeNewFile w_failing (js ''gone.tsx'') = js ''new file''"
    using analysis_failures_recovered [of w_failing "js ''gone.tsx''" "[]" "(noChanges, Map.empty)"] r
    by blast
  have b: "analyzeModifiedFile w_failing (js ''lost.json'') = js ''update file''"
    using analysis_failures_recovered [of w_failing "js ''lost.json''" "[]" "(noChanges, Map.empty)"] x
    by blast
  have ls: "statusLines (getGitStatus w_failing)
       = [js ''A  gone.tsx'', js ''M  lost.json'', js ''A  notes.md'']"
    by code_simp
  have m: "generateCommitMessage w_failing
       = sparkles @ js '' Add 2 new files: new file, new documentation'' @ [LF]
         @ wrench @ js '' Update 1 file: update file''"
    by code_simp
  from r a x b ls m show ?thesis by (intro conjI)
qed

section \<open>The scenario of one added component and one modified manifest\<close>

lemma scenario_lines:
  "statusLines (js ''A  src/Button.tsx'' @ [LF] @ js ''M  package.json'')
     = [js ''A  '' @ js ''src/Button.tsx'', js ''M  '' @ js ''package.json'']"
  by code_simp

text \<open>
  C8. For the status lines \<open>A  src/Button.tsx\<close> and \<open>M  package.json\<close>, where the
  first file is readable and has no export-default marker and the diff of the second
  contains \<open>"dependencies"\<close>, the message is the sparkles sign U+2728,
  \<open> Add 1 new file: new React component\<close>, a line feed, the wrench sign U+1F527 (the
  surrogates D83D DD27) and \<open> Update 1 file: update dependencies\<close>.
\<close>

theorem end_to_end_scenario:
  assumes status: "getGitStatus w = js ''A  src/Button.tsx'' @ [LF] @ js ''M  package.json''"
    and content: "readFileSync w (js ''src/Button.tsx'') = Some content"
    and nofun: "\<not> includes_js content (js ''export default function'')"
    and noclass: "\<not> includes_js content (js ''export default class'')"
    and diff: "execSync w (js ''git diff --no-ext-diff package.json'') = Some diff"
    and deps: "includes_js diff (js ''\"dependencies\"'')"
  shows "generateCommitMessage w
           = [0x2728] @ js '' Add 1 new file: new React component'' @ [0xA]
             @ [0xD83D, 0xDD27] @ js '' Update 1 file: update dependencies''"
proof -
  have tsx: "endsWith (js ''src/Button.tsx'') (js ''.tsx'')" by code_simp
  have new: "analyzeNewFile w (js ''src/Button.tsx'') = js ''new React component''"
    using content nofun noclass tsx by (simp add: analyzeNewFile_def)
  have cmd: "js ''git diff --no-ext-diff '' @ js ''package.json''
               = js ''git diff --no-ext-diff package.json''"
    by (simp add: js_def)
  have ext: "\<not> endsWith (js ''package.json'') (js ''.tsx'')"
    "\<not> endsWith (js ''package.json'') (js ''.jsx'')"
    "endsWith (js ''package.json'') (js ''.json'')"
    by code_simp+
  have upd: "analyzeModifiedFile w (js ''package.json'') = js ''update dependencies''"
    using diff deps ext by (simp add: analyzeModifiedFile_def cmd)
  have ne: "getGitStatus w \<noteq> []"
    by (simp add: status js_def)
  have lines: "statusLines (getGitStatus w)
                 = [js ''A  '' @ js ''src/Button.tsx'', js ''M  '' @ js ''package.json'']"
    unfolding status by (rule scenario_lines)
  have run: "fold (processLine w) (statusLines (getGitStatus w)) (noChanges, Map.empty) =
     (\<lparr>added = [js ''src/Button.tsx''], modified = [js ''package.json''],
       deleted = [], renamed = []\<rparr>,
      setDescription (setDescription Map.empty (js ''src/Button.tsx'') (js ''new React component''))
        (js ''package.json'') (js ''update dependencies''))"
    unfolding lines by (simp add: processLine_A processLine_M new upd noChanges_def)
  have res: "analyzeFileChanges w =
     (Some \<lparr>added = [js ''src/Button.tsx''], modified = [js ''package.json''],
            deleted = [], renamed = []\<rparr>,
      setDescription (setDescription Map.empty (js ''src/Button.tsx'') (js ''new React component''))
        (js ''package.json'') (js ''update dependencies''))"
    using ne by (simp add: analyzeFileChanges_def Let_def run)
  have "assembleMessage
          \<lparr>added = [js ''src/Button.tsx''], modified = [js ''package.json''],
            deleted = [], renamed = []\<rparr>
          (setDescription (setDescription Map.empty (js ''src/Button.tsx'') (js ''new React component''))
             (js ''package.json'') (js ''update dependencies''))
        = [0x2728] @ js '' Add 1 new file: new React component'' @ [0xA]
             @ [0xD83D, 0xDD27] @ js '' Update 1 file: update dependencies''"
    by code_simp
  then show ?thesis by (simp add: generateCommitMessage_def res)
qed

theorem end_to_end_scenario_witness:
  "getGitStatus w_scenario = js ''A  src/Button.tsx'' @ [LF] @ js ''M  package.json''
   \<and> readFileSync w_scenario (js ''src/Button.tsx'') = Some (js ''const Button = () => null'')
   \<and> \<not> includes_js (js ''const Button = () => null'') (js ''export default function'')
   \<and> \<not> includes_js (js ''const Button = () => null'') (js ''export default class'')
   \<and> execSync w_scenario (js ''git diff --no-ext-diff package.json'')
       = Some (js ''+  \"dependencies\": {'')
   \<and> includes_js (js ''+  \"dependencies\": {'') (js ''\"dependencies\"'')
   \<and> generateCommitMessage w_scenario
       = [0x2728] @ js '' Add 1 new file: new React component'' @ [0xA]
         @ [0xD83D, 0xDD27] @ js '' Update 1 file: update dependencies''"
proof -
  have h1: "getGitStatus w_scenario = js ''A  src/Button.tsx'' @ [LF] @ js ''M  package.json''"
    by code_simp
  have h2: "readFileSync w_scenario (js ''src/Button.tsx'') = Some (js ''const Button = () => null'')"
    by code_simp
  have h3: "\<not> includes_js (js ''const Button = () => null'') (js ''export default function'')"
    by code_simp
  have h4: "\<not> includes_js (js ''const Button = () => null'') (js ''export default class'')"
    by code_simp
  have h5: "execSync w_scenario (js ''git diff --no-ext-diff package.json'')
       = Some (js ''+  \"dependencies\": {'')"
    by code_simp
  have h6: "includes_js (js ''+  \"dependencies\": {'') (js ''\"dependencies\"'')"
    by code_simp
  from end_to_end_scenario [OF h1 h2 h3 h4 h5 h6] h1 h2 h3 h4 h5 h6
  show ?thesis by (intro conjI)
qed

section \<open>The bootstrap script without its prerequisites\<close>

text \<open>
  C9. When \<open>gh --version\<close> fails, \<open>main\<close> exits with status 1 after that one command;
  when it succeeds and \<open>gh auth status\<close> fails, \<open>main\<close> exits with status 1 after
  these two commands. In both cases the process exits with status 1 and no
  \<open>gh repo create\<close> command is run.
\<close>

theorem missing_cli_or_auth_is_fatal:
  "(\<not> runs h (js ''gh --version'') \<longrightarrow> main h = (Exited 1, [js ''gh --version'']))
   \<and> (runs h (js ''gh --version'') \<and> \<not> runs h (js ''gh auth status'')
        \<longrightarrow> main h = (Exited 1, [js ''gh --version'', js ''gh auth status'']))
   \<and> (\<not> runs h (js ''gh --version'') \<or> \<not> runs h (js ''gh auth status'')
        \<longrightarrow> fst (script h) = Exited 1 \<and> \<not> list_ex isRepoCreate (snd (script h)))"
proof -
  have n1: "\<not> isRepoCreate (js ''gh --version'')" by code_simp
  have n2: "\<not> isRepoCreate (js ''gh auth status'')" by code_simp
  show ?thesis
    using n1 n2
    by (auto simp: script_def main_def checkGitHubCLI_def checkGitHubAuth_def Let_def
        split: manifest.splits)
qed

theorem missing_cli_or_auth_is_fatal_witness:
  "\<not> runs h_nocli (js ''gh --version'')
   \<and> main h_nocli = (Exited 1, [js ''gh --version''])
   \<and> runs h_noauth (js ''gh --version'') \<and> \<not> runs h_noauth (js ''gh auth status'')
   \<and> main h_noauth = (Exited 1, [js ''gh --version'', js ''gh auth status''])
   \<and> fst (script h_nocli) = Exited 1 \<and> \<not> list_ex isRepoCreate (snd (script h_nocli))
   \<and> fst (script h_noauth) = Exited 1 \<and> \<not> list_ex isRepoCreate (snd (script h_noauth))
   \<and> fst (script h_ready) = Returned \<and> list_ex isRepoCreate (snd (script h_ready))"
proof -
  have a: "\<not> runs h_nocli (js ''gh --version'')" by code_simp
  have b: "runs h_noauth (js ''gh --version'')" by code_simp
  have c: "\<not> runs h_noauth (js ''gh auth status'')" by code_simp
  have r: "fst (script h_ready) = Returned" "list_ex isRepoCreate (snd (script h_ready))"
    by code_simp+
  from missing_cli_or_auth_is_fatal [of h_nocli] missing_cli_or_auth_is_fatal [of h_noauth] a b c r
  show ?thesis by blast
qed

end
